theory Spec2Isabelle
  imports Main
begin

section \<open>Views, templates and the store\<close>

text \<open>
  The source is TypeScript. A view is an object that is mutated in place, so views live in
  a store indexed by reference and every operation passes the store along. A thrown
  exception is the outcome \<open>Thrown\<close>; the store that comes with it holds whatever the
  function had already written.
\<close>

type_synonym ref = nat

datatype val = VUndefined | VBool bool | VNum int | VStr string | VRef ref

text \<open>JavaScript truthiness, which is what a conditional binding tests.\<close>

fun truthy :: "val \<Rightarrow> bool" where
  "truthy VUndefined = False"
| "truthy (VBool b) = b"
| "truthy (VNum n) = (n \<noteq> 0)"
| "truthy (VStr s) = (s \<noteq> [])"
| "truthy (VRef r) = True"

text \<open>
  An entry of an attribute's value list: a string literal, or the binding rule made by
  \<open>bindTemplate.if( name, value )\<close>.
\<close>

datatype entry = Token string | BindIf string string

record template_definition =
  attributes :: "string \<rightharpoonup> entry list"

text \<open>
  The function values the source creates. The injector assigns arrow functions that
  capture the variable \<open>decorated\<close>; the mixin declares methods that go through
  \<open>this\<close>.
\<close>

datatype func =
    AssignCaptured ref string bool
  | AssignThis string bool
  | ExtendThis template_definition

text \<open>
  \<open>props\<close> are the data properties of the object and \<open>methods\<close> the function-valued
  members the object owns itself (the ones assigned to it); \<open>proto\<close> holds the methods
  its class declares, which live on the prototype chain. \<open>observables\<close> are the names
  whose property is the one \<open>set()\<close> declared, \<open>template\<close> is absent until
  \<open>setTemplate()\<close> has run, and \<open>changes\<close> is the sequence of change notifications
  the object has sent.
\<close>

record view =
  props :: "string \<rightharpoonup> val"
  observables :: "string set"
  methods :: "string \<rightharpoonup> func"
  proto :: "string \<rightharpoonup> func"
  template :: "template_definition option"
  changes :: "(string \<times> val) list"

text \<open>
  \<open>view[ name ]\<close> for a function-valued member: a member the object owns is found
  before a method of its class.
\<close>

definition member :: "view \<Rightarrow> string \<Rightarrow> func option" where
  "member w name = (case methods w name of Some m \<Rightarrow> Some m | None \<Rightarrow> proto w name)"

type_synonym store = "ref \<Rightarrow> view"

datatype error = TemplateMissing | NotAFunction | Other string

datatype outcome = Returned val | Thrown error

section \<open>The view facilities the source calls\<close>

text \<open>
  Modelled from the spec: \<open>View.set\<close> (the spec's \<open>declareObservable\<close>) is not among
  the source files. It "registers a named property whose writes are observable by the
  template/render engine; subsequent plain assignment triggers change propagation", and
  a repeated call "redeclares the property".
\<close>

definition set_view :: "string \<Rightarrow> val \<Rightarrow> view \<Rightarrow> view" where
  "set_view name v w =
     w\<lparr>props := (props w)(name \<mapsto> v), observables := insert name (observables w)\<rparr>"

text \<open>
  Modelled from the spec: the setter behind a declared property is not among the source
  files. The assignment \<open>object.name = v\<close> stores the value. "Subsequent plain
  assignment triggers change propagation": on a property declared through \<open>set()\<close> an
  assignment that changes the value also sends a change notification; on a plain field
  nothing is sent.
\<close>

definition assign :: "string \<Rightarrow> val \<Rightarrow> view \<Rightarrow> view" where
  "assign name v w =
     (if name \<in> observables w \<and> props w name \<noteq> Some v
      then w\<lparr>props := (props w)(name \<mapsto> v), changes := changes w @ [(name, v)]\<rparr>
      else w\<lparr>props := (props w)(name \<mapsto> v)\<rparr>)"

text \<open>Modelled from the spec: \<open>bindTemplate.if\<close> (the spec's \<open>bindIf\<close>) "produces a
  template-binding-rule value".\<close>

definition bindTemplate_if :: "string \<Rightarrow> string \<Rightarrow> entry" where
  "bindTemplate_if name valueWhenTruthy = BindIf name valueWhenTruthy"

text \<open>
  Modelled from the spec: \<open>View.extendTemplate\<close> is not among the source files. It
  "merges by attribute key, appending to existing sequences", and with no template
  assigned the call fails.
\<close>

definition Template_extend :: "template_definition \<Rightarrow> template_definition \<Rightarrow> template_definition" where
  "Template_extend t d =
     t\<lparr>attributes := (\<lambda>key.
        case attributes d key of
          None \<Rightarrow> attributes t key
        | Some new \<Rightarrow> (case attributes t key of
                         None \<Rightarrow> Some new
                       | Some old \<Rightarrow> Some (old @ new)))\<rparr>"

definition extendTemplate :: "template_definition \<Rightarrow> view \<Rightarrow> error + view" where
  "extendTemplate d w =
     (case template w of
        None \<Rightarrow> Inl TemplateMissing
      | Some t \<Rightarrow> Inr (w\<lparr>template := Some (Template_extend t d)\<rparr>))"

text \<open>
  Modelled from the spec: the render engine is not among the source files. It evaluates a
  binding rule at each render: the value is included "iff the named observable property
  is truthy"; a literal is always included. The property is read by name from the view,
  as \<open>view[ name ]\<close> reads it, whether it was declared through \<open>set()\<close> or is a
  plain field; \<open>render_attribute\<close> is the value list of one attribute at one render.
\<close>

fun render_entry :: "view \<Rightarrow> entry \<Rightarrow> string list" where
  "render_entry w (Token s) = [s]"
| "render_entry w (BindIf name s) =
     (case props w name of
        None \<Rightarrow> []
      | Some v \<Rightarrow> (if truthy v then [s] else []))"

definition entries :: "view \<Rightarrow> string \<Rightarrow> entry list" where
  "entries w key =
     (case template w of
        None \<Rightarrow> []
      | Some t \<Rightarrow> (case attributes t key of None \<Rightarrow> [] | Some es \<Rightarrow> es))"

definition render_attribute :: "view \<Rightarrow> string \<Rightarrow> string list" where
  "render_attribute w key = concat (map (render_entry w) (entries w key))"

section \<open>injectCssTransitionDisabler\<close>

text \<open>The template extension both paths pass to \<open>extendTemplate\<close>.\<close>

definition binding :: template_definition where
  "binding =
     \<lparr>attributes =
        [''class'' \<mapsto> [bindTemplate_if ''_isCssTransitionsDisabled'' ''ck-transitions-disabled'']]\<rparr>"

text \<open>
  The function has an \<open>asserts\<close> signature and no \<open>return\<close> statement: it returns
  \<open>undefined\<close> and leaves its effect in the object \<open>view\<close> refers to.
\<close>

definition injectCssTransitionDisabler :: "ref \<Rightarrow> store \<Rightarrow> outcome \<times> store" where
  "injectCssTransitionDisabler decorated h =
     (let h1 = h(decorated := set_view ''_isCssTransitionsDisabled'' (VBool False) (h decorated));
          h2 = h1(decorated := (h1 decorated)\<lparr>methods := (methods (h1 decorated))
                 (''disableCssTransitions'' \<mapsto>
                    AssignCaptured decorated ''_isCssTransitionsDisabled'' True)\<rparr>);
          h3 = h2(decorated := (h2 decorated)\<lparr>methods := (methods (h2 decorated))
                 (''enableCssTransitions'' \<mapsto>
                    AssignCaptured decorated ''_isCssTransitionsDisabled'' False)\<rparr>)
      in case extendTemplate binding (h3 decorated) of
           Inl e \<Rightarrow> (Thrown e, h3)
         | Inr w \<Rightarrow> (Returned VUndefined, h3(decorated := w)))"

section \<open>CssTransitionMixin\<close>

text \<open>
  TypeScript emits a class field with an initialiser in one of two ways: as the assignment
  \<open>this.name = value\<close> that runs after \<open>super( ...args )\<close>, or, under
  \<open>useDefineForClassFields\<close>, as the definition of a data property of the object, which
  replaces the property \<open>set()\<close> declared under that name, if there is one. The
  compiler settings are not among the source files, so the emit is a parameter.
\<close>

datatype field_emit = AssignField | DefineField

definition initialise_field :: "field_emit \<Rightarrow> string \<Rightarrow> val \<Rightarrow> view \<Rightarrow> view" where
  "initialise_field emit name v w =
     (case emit of
        AssignField \<Rightarrow> assign name v w
      | DefineField \<Rightarrow>
          w\<lparr>props := (props w)(name \<mapsto> v), observables := observables w - {name}\<rparr>)"

text \<open>The three methods of the class body.\<close>

definition disableCssTransitions :: func where
  "disableCssTransitions = AssignThis ''_isCssTransitionsDisabled'' True"

definition enableCssTransitions :: func where
  "enableCssTransitions = AssignThis ''_isCssTransitionsDisabled'' False"

definition initializeMixin :: func where
  "initializeMixin = ExtendThis binding"

text \<open>
  A class is given by its constructor: from the argument list to the instance it builds,
  or to the exception it throws. The class \<open>Mixin extends base\<close> has no constructor of
  its own, so \<open>new Mixin( ...args )\<close> runs \<open>base\<close> on the same arguments and then the
  field initialiser \<open>_isCssTransitionsDisabled = false\<close>. The three methods are
  declared by the class, so they are on the prototype, in front of the methods of
  \<open>base\<close> and behind whatever the instance owns itself.
\<close>

type_synonym 'a constructor = "'a \<Rightarrow> error + view"

definition Mixin :: "field_emit \<Rightarrow> view \<Rightarrow> view" where
  "Mixin emit w =
     initialise_field emit ''_isCssTransitionsDisabled'' (VBool False)
       (w\<lparr>proto := (proto w)
            (''disableCssTransitions'' \<mapsto> disableCssTransitions,
             ''enableCssTransitions'' \<mapsto> enableCssTransitions,
             ''initializeMixin'' \<mapsto> initializeMixin)\<rparr>)"

definition CssTransitionMixin :: "field_emit \<Rightarrow> 'a constructor \<Rightarrow> 'a constructor" where
  "CssTransitionMixin emit base args =
     (case base args of
        Inl e \<Rightarrow> Inl e
      | Inr w \<Rightarrow> Inr (Mixin emit w))"

text \<open>\<open>new C( ...args )\<close>, the new object being placed at the reference \<open>r\<close>.\<close>

definition new :: "'a constructor \<Rightarrow> 'a \<Rightarrow> ref \<Rightarrow> store \<Rightarrow> outcome \<times> store" where
  "new c args r h =
     (case c args of
        Inl e \<Rightarrow> (Thrown e, h)
      | Inr w \<Rightarrow> (Returned (VRef r), h(r := w)))"

section \<open>Calling the control methods\<close>

fun exec :: "func \<Rightarrow> ref \<Rightarrow> store \<Rightarrow> outcome \<times> store" where
  "exec (AssignCaptured decorated name b) this h =
     (Returned VUndefined, h(decorated := assign name (VBool b) (h decorated)))"
| "exec (AssignThis name b) this h =
     (Returned VUndefined, h(this := assign name (VBool b) (h this)))"
| "exec (ExtendThis d) this h =
     (case extendTemplate d (h this) of
        Inl e \<Rightarrow> (Thrown e, h)
      | Inr w \<Rightarrow> (Returned VUndefined, h(this := w)))"

text \<open>\<open>view.name()\<close>: calling a member that is not a function is a TypeError.\<close>

definition call :: "ref \<Rightarrow> string \<Rightarrow> store \<Rightarrow> outcome \<times> store" where
  "call r name h =
     (case member (h r) name of
        None \<Rightarrow> (Thrown NotAFunction, h)
      | Some m \<Rightarrow> exec m r h)"

text \<open>A sequence of calls on one view; an exception ends it.\<close>

fun calls :: "ref \<Rightarrow> string list \<Rightarrow> store \<Rightarrow> outcome \<times> store" where
  "calls r [] h = (Returned VUndefined, h)"
| "calls r (name # names) h =
     (case call r name h of
        (Thrown e, h') \<Rightarrow> (Thrown e, h')
      | (Returned v, h') \<Rightarrow> calls r names h')"

section \<open>EasyImage\<close>

text \<open>
  Modelled from the spec: the plugin collection and \<open>logWarning\<close> are not among the
  source files. The registry is queried "by name for presence"; a warning is "one
  diagnostic event carrying a fixed identifier string and a reference to the owning
  context object", kept here in the order emitted.
\<close>

record editor =
  plugins :: "string set"

type_synonym console = "(string \<times> editor) list"

definition has :: "string set \<Rightarrow> string \<Rightarrow> bool" where
  "has registry name = (name \<in> registry)"

definition logWarning :: "string \<Rightarrow> editor \<Rightarrow> console \<Rightarrow> console" where
  "logWarning errorName data c = c @ [(errorName, data)]"

definition init :: "editor \<Rightarrow> console \<Rightarrow> console" where
  "init editor c =
     (if \<not> has (plugins editor) ''ImageBlockEditing'' \<and> \<not> has (plugins editor) ''ImageInlineEditing''
      then logWarning ''easy-image-image-feature-missing'' editor c
      else c)"

section \<open>Derived notions\<close>

text \<open>
  The two control methods as either path leaves them to be found on the view at reference
  \<open>r\<close>: the injector's closures over \<open>r\<close>, or the mixin's methods over \<open>this\<close>.
\<close>

definition controls_installed :: "ref \<Rightarrow> view \<Rightarrow> bool" where
  "controls_installed r w =
     ((member w ''disableCssTransitions'' = Some (AssignCaptured r ''_isCssTransitionsDisabled'' True)
       \<and> member w ''enableCssTransitions'' = Some (AssignCaptured r ''_isCssTransitionsDisabled'' False))
      \<or> (member w ''disableCssTransitions'' = Some (AssignThis ''_isCssTransitionsDisabled'' True)
       \<and> member w ''enableCssTransitions'' = Some (AssignThis ''_isCssTransitionsDisabled'' False)))"

text \<open>A view whose template declares the class tokens \<open>a\<close> and \<open>b\<close>, as after
  \<open>setTemplate( { attributes: { class: [ 'a', 'b' ] } } )\<close>, and a store of such views.\<close>

definition example_view :: view where
  "example_view =
     \<lparr>props = Map.empty, observables = {}, methods = Map.empty, proto = Map.empty,
      template = Some \<lparr>attributes = [''class'' \<mapsto> [Token ''a'', Token ''b'']]\<rparr>,
      changes = []\<rparr>"

definition example_store :: store where
  "example_store = (\<lambda>r. example_view)"

text \<open>A view whose template already holds the literal class token
  \<open>ck-transitions-disabled\<close>, and a store of such views.\<close>

definition token_view :: view where
  "token_view =
     \<lparr>props = Map.empty, observables = {}, methods = Map.empty, proto = Map.empty,
      template = Some \<lparr>attributes = [''class'' \<mapsto> [Token ''ck-transitions-disabled'']]\<rparr>,
      changes = []\<rparr>"

definition token_store :: store where
  "token_store = (\<lambda>r. token_view)"


section \<open>Auxiliary facts\<close>

lemma assign_frame [simp]:
  "template (assign n v w) = template w"
  "methods (assign n v w) = methods w"
  "proto (assign n v w) = proto w"
  "observables (assign n v w) = observables w"
  "props (assign n v w) = (props w)(n \<mapsto> v)"
  by (simp_all add: assign_def)

lemma member_assign [simp]: "member (assign n v w) name = member w name"
  by (simp add: member_def split: option.splits)

lemma assign_changes:
  "changes (assign n v w) =
     changes w @ (if n \<in> observables w \<and> props w n \<noteq> Some v then [(n, v)] else [])"
  by (simp add: assign_def)


lemma entries_assign [simp]: "entries (assign n v w) key = entries w key"
  by (simp add: entries_def)

lemma inject_unfold:
  "injectCssTransitionDisabler r h =
     (let w = (set_view ''_isCssTransitionsDisabled'' (VBool False) (h r))
               \<lparr>methods := (methods (h r))
                  (''disableCssTransitions'' \<mapsto> AssignCaptured r ''_isCssTransitionsDisabled'' True,
                   ''enableCssTransitions'' \<mapsto> AssignCaptured r ''_isCssTransitionsDisabled'' False)\<rparr>
      in case template (h r) of
           None \<Rightarrow> (Thrown TemplateMissing, h(r := w))
         | Some t \<Rightarrow> (Returned VUndefined, h(r := w\<lparr>template := Some (Template_extend t binding)\<rparr>)))"
  by (simp add: injectCssTransitionDisabler_def extendTemplate_def set_view_def Let_def
      split: option.splits)

lemma attributes_extend_binding:
  "attributes (Template_extend t binding) key =
     (if key = ''class''
      then Some ((case attributes t key of None \<Rightarrow> [] | Some es \<Rightarrow> es)
                 @ [BindIf ''_isCssTransitionsDisabled'' ''ck-transitions-disabled''])
      else attributes t key)"
  by (simp add: Template_extend_def binding_def bindTemplate_if_def split: option.splits)

lemma entries_extended:
  "template w = Some t \<Longrightarrow>
   entries (w\<lparr>template := Some (Template_extend t binding)\<rparr>) key =
     entries w key @ (if key = ''class''
                      then [BindIf ''_isCssTransitionsDisabled'' ''ck-transitions-disabled'']
                      else [])"
  by (simp add: entries_def attributes_extend_binding split: option.splits)

lemma new_mixin:
  "base args = Inr wb \<Longrightarrow>
   new (CssTransitionMixin emit base) args r h = (Returned (VRef r), h(r := Mixin emit wb))"
  by (simp add: new_def CssTransitionMixin_def)

lemma Mixin_frame [simp]:
  "template (Mixin emit w) = template w"
  "methods (Mixin emit w) = methods w"
  "props (Mixin emit w) = (props w)(''_isCssTransitionsDisabled'' \<mapsto> VBool False)"
  "proto (Mixin emit w) = (proto w)
      (''disableCssTransitions'' \<mapsto> disableCssTransitions,
       ''enableCssTransitions'' \<mapsto> enableCssTransitions,
       ''initializeMixin'' \<mapsto> initializeMixin)"
  by (cases emit; simp add: Mixin_def initialise_field_def)+

lemma Mixin_observables:
  "observables (Mixin emit w) =
     (case emit of
        AssignField \<Rightarrow> observables w
      | DefineField \<Rightarrow> observables w - {''_isCssTransitionsDisabled''})"
  by (cases emit) (simp_all add: Mixin_def initialise_field_def)


lemma entries_Mixin [simp]: "entries (Mixin emit w) key = entries w key"
  by (simp add: entries_def)

lemma member_Mixin:
  "member (Mixin emit w) name =
     (case methods w name of
        Some m \<Rightarrow> Some m
      | None \<Rightarrow>
          ((proto w)
            (''disableCssTransitions'' \<mapsto> disableCssTransitions,
             ''enableCssTransitions'' \<mapsto> enableCssTransitions,
             ''initializeMixin'' \<mapsto> initializeMixin)) name)"
  by (simp add: member_def split: option.splits)

lemma exec_initializeMixin:
  "exec initializeMixin r h =
     (case template (h r) of
        None \<Rightarrow> (Thrown TemplateMissing, h)
      | Some t \<Rightarrow> (Returned VUndefined, h(r := (h r)\<lparr>template := Some (Template_extend t binding)\<rparr>)))"
  by (simp add: initializeMixin_def extendTemplate_def split: option.splits)

lemma call_initializeMixin_Mixin:
  "methods wb ''initializeMixin'' = None \<Longrightarrow>
   call r ''initializeMixin'' (h(r := Mixin emit wb)) =
     exec initializeMixin r (h(r := Mixin emit wb))"
  by (simp add: call_def member_Mixin)

lemma exec_initializeMixin_Mixin:
  "exec initializeMixin r (h(r := Mixin emit wb)) =
     (case template wb of
        None \<Rightarrow> (Thrown TemplateMissing, h(r := Mixin emit wb))
      | Some t \<Rightarrow> (Returned VUndefined,
                   h(r := (Mixin emit wb)\<lparr>template := Some (Template_extend t binding)\<rparr>)))"
  by (simp add: exec_initializeMixin split: option.splits)

lemma inject_view:
  "template (h r) = Some t \<Longrightarrow>
   snd (injectCssTransitionDisabler r h) r =
     (set_view ''_isCssTransitionsDisabled'' (VBool False) (h r))
       \<lparr>methods := (methods (h r))
          (''disableCssTransitions'' \<mapsto> AssignCaptured r ''_isCssTransitionsDisabled'' True,
           ''enableCssTransitions'' \<mapsto> AssignCaptured r ''_isCssTransitionsDisabled'' False),
        template := Some (Template_extend t binding)\<rparr>"
  by (simp add: inject_unfold Let_def)

lemma inject_entries:
  assumes "template (h r) \<noteq> None"
  shows "entries (snd (injectCssTransitionDisabler r h) r) key =
           entries (h r) key @ (if key = ''class''
              then [BindIf ''_isCssTransitionsDisabled'' ''ck-transitions-disabled'']
              else [])"
proof -
  from assms obtain t where t: "template (h r) = Some t" by auto
  let ?w = "(set_view ''_isCssTransitionsDisabled'' (VBool False) (h r))
               \<lparr>methods := (methods (h r))
                  (''disableCssTransitions'' \<mapsto> AssignCaptured r ''_isCssTransitionsDisabled'' True,
                   ''enableCssTransitions'' \<mapsto> AssignCaptured r ''_isCssTransitionsDisabled'' False)\<rparr>"
  have tw: "template ?w = Some t" using t by (simp add: set_view_def)
  have ew: "entries ?w key = entries (h r) key" by (simp add: entries_def set_view_def)
  have "entries (snd (injectCssTransitionDisabler r h) r) key =
          entries (?w\<lparr>template := Some (Template_extend t binding)\<rparr>) key"
    by (simp add: inject_view [of h r t, OF t])
  also have "\<dots> = entries ?w key @ (if key = ''class''
              then [BindIf ''_isCssTransitionsDisabled'' ''ck-transitions-disabled''] else [])"
    by (rule entries_extended [OF tw])
  finally show ?thesis by (simp add: ew)
qed

lemma initializeMixin_entries:
  assumes "template wb \<noteq> None"
  shows "entries (snd (exec initializeMixin r (h(r := Mixin emit wb))) r) key =
           entries wb key @ (if key = ''class''
              then [BindIf ''_isCssTransitionsDisabled'' ''ck-transitions-disabled'']
              else [])"
proof -
  from assms obtain t where t: "template wb = Some t" by auto
  have tm: "template (Mixin emit wb) = Some t" using t by simp
  show ?thesis
    using entries_extended [OF tm, of key] by (simp add: exec_initializeMixin_Mixin t)
qed

section \<open>Template extension\<close>

text \<open>
  C4. The extension performed by \<open>injectCssTransitionDisabler\<close>, and by
  \<open>initializeMixin\<close> on an instance of the mixin class, appends exactly one binding
  rule after the entries the \<open>class\<close> attribute already holds; every earlier entry of
  every attribute stays, in its place. The method of the class does so on every instance;
  \<open>instance.initializeMixin()\<close> reaches that method where the instance owns no member of
  that name itself.
\<close>

theorem template_extension_appends:
  assumes "template (h r) \<noteq> None"
  shows "entries (snd (injectCssTransitionDisabler r h) r) key =
           entries (h r) key @ (if key = ''class''
              then [bindTemplate_if ''_isCssTransitionsDisabled'' ''ck-transitions-disabled'']
              else [])
         \<and> (base args = Inr wb \<and> template wb \<noteq> None \<longrightarrow>
            proto (snd (new (CssTransitionMixin emit base) args r h) r) ''initializeMixin''
              = Some initializeMixin
            \<and> entries (snd (exec initializeMixin r
                       (snd (new (CssTransitionMixin emit base) args r h))) r) key =
              entries wb key @ (if key = ''class''
                then [bindTemplate_if ''_isCssTransitionsDisabled'' ''ck-transitions-disabled'']
                else [])
            \<and> (methods wb ''initializeMixin'' = None \<longrightarrow>
                entries (snd (call r ''initializeMixin''
                       (snd (new (CssTransitionMixin emit base) args r h))) r) key =
                entries wb key @ (if key = ''class''
                  then [bindTemplate_if ''_isCssTransitionsDisabled'' ''ck-transitions-disabled'']
                  else [])))"
  using inject_entries [of h r key, OF assms] initializeMixin_entries [of wb r h emit key]
  by (simp add: new_mixin bindTemplate_if_def call_initializeMixin_Mixin)

theorem template_extension_appends_witness:
  "entries (snd (injectCssTransitionDisabler 0 example_store) 0) ''class'' =
     [Token ''a'', Token ''b'', BindIf ''_isCssTransitionsDisabled'' ''ck-transitions-disabled'']
   \<and> entries (snd (call 0 ''initializeMixin''
         (snd (new (CssTransitionMixin AssignField (\<lambda>u::unit. Inr example_view)) () 0
                example_store))) 0) ''class'' =
     [Token ''a'', Token ''b'', BindIf ''_isCssTransitionsDisabled'' ''ck-transitions-disabled'']"
proof -
  have t: "template (example_store 0) \<noteq> None"
    by (simp add: example_store_def example_view_def)
  have b: "(\<lambda>u::unit. Inr example_view) () = Inr example_view \<and> template example_view \<noteq> None"
          "methods example_view ''initializeMixin'' = None"
    by (simp_all add: example_view_def)
  have e: "entries (example_store 0) ''class'' = [Token ''a'', Token ''b'']"
          "entries example_view ''class'' = [Token ''a'', Token ''b'']"
    by (simp_all add: example_store_def example_view_def entries_def)
  from template_extension_appends
         [of example_store 0 "''class''" "\<lambda>u::unit. Inr example_view" "()" example_view AssignField,
          OF t] b e
  show ?thesis by (simp add: bindTemplate_if_def)
qed

section \<open>The injector's result\<close>

text \<open>
  C6, as the claim states it, fails: the injector does not return the reference it
  received. On a view with a template it returns \<open>undefined\<close>.
\<close>

theorem inject_returns_reference_counterexample:
  "fst (injectCssTransitionDisabler 0 example_store) = Returned VUndefined
   \<and> fst (injectCssTransitionDisabler 0 example_store) \<noteq> Returned (VRef 0)"
  by (simp add: inject_unfold Let_def example_store_def example_view_def)

text \<open>
  C6, amended. \<open>injectCssTransitionDisabler\<close> returns no value: it returns
  \<open>undefined\<close>, or throws where the view has no template. The capability is on the
  object the caller's reference denotes, which is mutated in place: the flag reads
  \<open>false\<close>, both control methods are there, and no other object of the store changes.
\<close>

theorem inject_returns_undefined:
  "fst (injectCssTransitionDisabler r h) =
     (case template (h r) of None \<Rightarrow> Thrown TemplateMissing | Some t \<Rightarrow> Returned VUndefined)
   \<and> snd (injectCssTransitionDisabler r h) = h(r := snd (injectCssTransitionDisabler r h) r)
   \<and> props (snd (injectCssTransitionDisabler r h) r) ''_isCssTransitionsDisabled'' = Some (VBool False)
   \<and> methods (snd (injectCssTransitionDisabler r h) r) ''disableCssTransitions''
       = Some (AssignCaptured r ''_isCssTransitionsDisabled'' True)
   \<and> methods (snd (injectCssTransitionDisabler r h) r) ''enableCssTransitions''
       = Some (AssignCaptured r ''_isCssTransitionsDisabled'' False)"
  by (cases "template (h r)") (simp_all add: inject_unfold Let_def set_view_def)

section \<open>EasyImage.init\<close>

text \<open>
  C9. \<open>init\<close> keeps what was logged before; what it adds is exactly the one warning
  \<open>easy-image-image-feature-missing\<close> with the editor when the registry has neither
  \<open>ImageBlockEditing\<close> nor \<open>ImageInlineEditing\<close>, and nothing at all when it has
  at least one of them.
\<close>

theorem init_warning:
  "take (length c) (init e c) = c
   \<and> (drop (length c) (init e c) = [(''easy-image-image-feature-missing'', e)])
       = (\<not> has (plugins e) ''ImageBlockEditing'' \<and> \<not> has (plugins e) ''ImageInlineEditing'')
   \<and> (init e c = c)
       = (has (plugins e) ''ImageBlockEditing'' \<or> has (plugins e) ''ImageInlineEditing'')"
  unfolding init_def logWarning_def
  by (cases "has (plugins e) ''ImageBlockEditing''"; cases "has (plugins e) ''ImageInlineEditing''") simp_all

section \<open>The control methods\<close>

lemma call_disable:
  "controls_installed r (h r) \<Longrightarrow>
   call r ''disableCssTransitions'' h =
     (Returned VUndefined, h(r := assign ''_isCssTransitionsDisabled'' (VBool True) (h r)))"
  by (auto simp add: controls_installed_def call_def)

lemma call_enable:
  "controls_installed r (h r) \<Longrightarrow>
   call r ''enableCssTransitions'' h =
     (Returned VUndefined, h(r := assign ''_isCssTransitionsDisabled'' (VBool False) (h r)))"
  by (auto simp add: controls_installed_def call_def)

lemma call_control:
  "controls_installed r (h r) \<Longrightarrow>
   call r (if b then ''disableCssTransitions'' else ''enableCssTransitions'') h =
     (Returned VUndefined, h(r := assign ''_isCssTransitionsDisabled'' (VBool b) (h r)))"
  by (simp add: call_disable call_enable)

lemma controls_installed_assign [simp]:
  "controls_installed r (assign n v w) = controls_installed r w"
  by (simp add: controls_installed_def)

lemma member_template_update [simp]:
  "member (w\<lparr>template := t\<rparr>) name = member w name"
  by (simp add: member_def split: option.splits)

lemma controls_installed_template_update [simp]:
  "controls_installed r (w\<lparr>template := t\<rparr>) = controls_installed r w"
  by (simp add: controls_installed_def)

lemma inject_installs_controls:
  "controls_installed r (snd (injectCssTransitionDisabler r h) r)"
  by (cases "template (h r)")
     (simp_all add: inject_unfold Let_def controls_installed_def member_def)

lemma Mixin_installs_controls:
  "controls_installed r (Mixin emit wb) =
     ((methods wb ''disableCssTransitions''
          = Some (AssignCaptured r ''_isCssTransitionsDisabled'' True)
       \<and> methods wb ''enableCssTransitions''
          = Some (AssignCaptured r ''_isCssTransitionsDisabled'' False))
      \<or> ((methods wb ''disableCssTransitions'' = None
           \<or> methods wb ''disableCssTransitions''
              = Some (AssignThis ''_isCssTransitionsDisabled'' True))
         \<and> (methods wb ''enableCssTransitions'' = None
           \<or> methods wb ''enableCssTransitions''
              = Some (AssignThis ''_isCssTransitionsDisabled'' False))))"
  by (cases "methods wb ''disableCssTransitions''"; cases "methods wb ''enableCssTransitions''")
     (auto simp add: controls_installed_def member_Mixin disableCssTransitions_def
        enableCssTransitions_def)

lemma Mixin_installs_controls_plain:
  "methods wb ''disableCssTransitions'' = None \<Longrightarrow>
   methods wb ''enableCssTransitions'' = None \<Longrightarrow>
   controls_installed r (Mixin emit wb)"
  by (simp add: Mixin_installs_controls)



text \<open>
  C8. A call of either control method writes the flag and nothing else: the other
  properties, the members the view owns, the methods of its class, the set of declared
  observables and the template of the view are as before, no other object of the store
  changes, and the only notification sent is the one of the flag's own change.
\<close>

theorem control_methods_write_only_flag:
  assumes "controls_installed r (h r)"
  shows "snd (call r (if b then ''disableCssTransitions'' else ''enableCssTransitions'') h) =
           h(r := (h r)\<lparr>props := (props (h r))(''_isCssTransitionsDisabled'' \<mapsto> VBool b),
                          changes := changes (h r) @
                            (if ''_isCssTransitionsDisabled'' \<in> observables (h r)
                                \<and> props (h r) ''_isCssTransitionsDisabled'' \<noteq> Some (VBool b)
                             then [(''_isCssTransitionsDisabled'', VBool b)] else [])\<rparr>)
       \<and> template (snd (call r (if b then ''disableCssTransitions'' else ''enableCssTransitions'') h) r)
           = template (h r)
       \<and> methods (snd (call r (if b then ''disableCssTransitions'' else ''enableCssTransitions'') h) r)
           = methods (h r)
       \<and> proto (snd (call r (if b then ''disableCssTransitions'' else ''enableCssTransitions'') h) r)
           = proto (h r)
       \<and> observables (snd (call r (if b then ''disableCssTransitions'' else ''enableCssTransitions'') h) r)
           = observables (h r)"
  by (simp add: call_control [of r h b, OF assms] assign_def)

theorem control_methods_write_only_flag_witness:
  "controls_installed 0 (snd (injectCssTransitionDisabler 0 example_store) 0)
   \<and> template (snd (call 0 ''disableCssTransitions''
                 (snd (injectCssTransitionDisabler 0 example_store))) 0)
       = template (snd (injectCssTransitionDisabler 0 example_store) 0)
   \<and> methods (snd (call 0 ''disableCssTransitions''
                 (snd (injectCssTransitionDisabler 0 example_store))) 0)
       = methods (snd (injectCssTransitionDisabler 0 example_store) 0)"
  using control_methods_write_only_flag
          [of 0 "snd (injectCssTransitionDisabler 0 example_store)" True]
    inject_installs_controls [of 0 example_store]
  by simp

lemma render_without_token:
  "Token s \<notin> set es \<Longrightarrow> (\<forall>n. BindIf n s \<notin> set es) \<Longrightarrow>
   s \<notin> set (concat (map (render_entry w) es))"
proof (induction es)
  case Nil
  then show ?case by simp
next
  case (Cons e es)
  then show ?case by (cases e) (auto split: option.splits)
qed

lemma render_entry_cong:
  "props w = props w' \<Longrightarrow> render_entry w e = render_entry w' e"
  by (cases e) simp_all

lemma render_attribute_cong:
  "props w = props w' \<Longrightarrow> template w = template w' \<Longrightarrow>
   render_attribute w key = render_attribute w' key"
  using render_entry_cong [of w w']
  by (simp add: render_attribute_def entries_def cong: map_cong)

lemma inject_props:
  "props (snd (injectCssTransitionDisabler r h) r) =
     (props (h r))(''_isCssTransitionsDisabled'' \<mapsto> VBool False)"
  by (cases "template (h r)") (simp_all add: inject_unfold Let_def set_view_def)


section \<open>Repeated injection\<close>

text \<open>
  C7. A second \<open>injectCssTransitionDisabler\<close> on the same view is not rejected: it
  returns normally, declares the flag again (back to \<open>false\<close>, also after a
  \<open>disableCssTransitions()\<close>), assigns the two methods again, and leaves a second copy
  of the binding rule in the class list, so the store differs from the one after the first
  call.
\<close>

theorem inject_twice_duplicates_rule:
  assumes "template (h r) \<noteq> None"
  shows "fst (injectCssTransitionDisabler r (snd (injectCssTransitionDisabler r h)))
           = Returned VUndefined
       \<and> entries (snd (injectCssTransitionDisabler r (snd (injectCssTransitionDisabler r h))) r)
           ''class''
           = entries (h r) ''class''
             @ [bindTemplate_if ''_isCssTransitionsDisabled'' ''ck-transitions-disabled'',
                bindTemplate_if ''_isCssTransitionsDisabled'' ''ck-transitions-disabled'']
       \<and> snd (injectCssTransitionDisabler r (snd (injectCssTransitionDisabler r h)))
           \<noteq> snd (injectCssTransitionDisabler r h)
       \<and> props (snd (injectCssTransitionDisabler r
                  (snd (call r ''disableCssTransitions'' (snd (injectCssTransitionDisabler r h))))) r)
           ''_isCssTransitionsDisabled'' = Some (VBool False)
       \<and> controls_installed r
           (snd (injectCssTransitionDisabler r (snd (injectCssTransitionDisabler r h))) r)"
proof -
  let ?h1 = "snd (injectCssTransitionDisabler r h)"
  let ?h2 = "snd (injectCssTransitionDisabler r ?h1)"
  from assms obtain t where t: "template (h r) = Some t" by auto
  have t1: "template (?h1 r) \<noteq> None"
    by (simp add: inject_view [of h r t, OF t])
  have e1: "entries (?h1 r) ''class'' = entries (h r) ''class''
              @ [BindIf ''_isCssTransitionsDisabled'' ''ck-transitions-disabled'']"
    using inject_entries [of h r "''class''", OF assms] by simp
  have e2: "entries (?h2 r) ''class'' = entries (?h1 r) ''class''
              @ [BindIf ''_isCssTransitionsDisabled'' ''ck-transitions-disabled'']"
    using inject_entries [of ?h1 r "''class''", OF t1] by simp
  have o: "fst (injectCssTransitionDisabler r ?h1) = Returned VUndefined"
    using t1 by (simp add: inject_unfold [of r ?h1] Let_def split: option.splits)
  have ne: "?h2 \<noteq> ?h1"
  proof
    assume "?h2 = ?h1"
    then have "entries (?h2 r) ''class'' = entries (?h1 r) ''class''" by simp
    with e2 show False by simp
  qed
  have f: "props (snd (injectCssTransitionDisabler r
                  (snd (call r ''disableCssTransitions'' ?h1))) r)
           ''_isCssTransitionsDisabled'' = Some (VBool False)"
    by (simp add: inject_props)
  show ?thesis
    using o e1 e2 ne f inject_installs_controls [of r ?h1]
    by (simp add: bindTemplate_if_def)
qed

theorem inject_twice_duplicates_rule_witness:
  "fst (injectCssTransitionDisabler 0 (snd (injectCssTransitionDisabler 0 example_store)))
     = Returned VUndefined
   \<and> entries (snd (injectCssTransitionDisabler 0
                 (snd (injectCssTransitionDisabler 0 example_store))) 0) ''class''
     = [Token ''a'', Token ''b'',
        BindIf ''_isCssTransitionsDisabled'' ''ck-transitions-disabled'',
        BindIf ''_isCssTransitionsDisabled'' ''ck-transitions-disabled'']"
proof -
  have t: "template (example_store 0) \<noteq> None"
    by (simp add: example_store_def example_view_def)
  have e: "entries (example_store 0) ''class'' = [Token ''a'', Token ''b'']"
    by (simp add: example_store_def example_view_def entries_def)
  from inject_twice_duplicates_rule [of example_store 0, OF t] e
  show ?thesis by (simp add: bindTemplate_if_def)
qed

section \<open>Default state\<close>




section \<open>Sequences of control calls\<close>

lemma calls_controls:
  "controls_installed r (h r) \<Longrightarrow>
   set names \<subseteq> {''disableCssTransitions'', ''enableCssTransitions''} \<Longrightarrow>
   calls r names h =
     (Returned VUndefined,
      h(r := foldl (\<lambda>w name. assign ''_isCssTransitionsDisabled''
                                 (VBool (name = ''disableCssTransitions'')) w) (h r) names))"
proof (induction names arbitrary: h)
  case Nil
  then show ?case by simp
next
  case (Cons name names)
  let ?h' = "h(r := assign ''_isCssTransitionsDisabled''
                        (VBool (name = ''disableCssTransitions'')) (h r))"
  from Cons.prems have n: "name = ''disableCssTransitions'' \<or> name = ''enableCssTransitions''"
    by simp
  have c: "call r name h = (Returned VUndefined, ?h')"
    using n call_disable [of r h] call_enable [of r h] Cons.prems(1) by auto
  have i: "controls_installed r (?h' r)" using Cons.prems(1) by simp
  from Cons.prems have s: "set names \<subseteq> {''disableCssTransitions'', ''enableCssTransitions''}"
    by simp
  have ih: "calls r names ?h' =
     (Returned VUndefined,
      ?h'(r := foldl (\<lambda>w name. assign ''_isCssTransitionsDisabled''
                                 (VBool (name = ''disableCssTransitions'')) w) (?h' r) names))"
    by (rule Cons.IH [of ?h', OF i s])
  have u: "?h'(r := foldl (\<lambda>w name. assign ''_isCssTransitionsDisabled''
                                 (VBool (name = ''disableCssTransitions'')) w) (?h' r) names)
         = h(r := foldl (\<lambda>w name. assign ''_isCssTransitionsDisabled''
                                 (VBool (name = ''disableCssTransitions'')) w) (h r) (name # names))"
    by simp
  have "calls r (name # names) h = calls r names ?h'"
    by (simp add: c)
  with ih u show ?case by (simp only:)
qed

lemma toggled_frame:
  "template (foldl (\<lambda>w name. assign n (VBool (name = d)) w) w names) = template w"
  "methods (foldl (\<lambda>w name. assign n (VBool (name = d)) w) w names) = methods w"
  "proto (foldl (\<lambda>w name. assign n (VBool (name = d)) w) w names) = proto w"
  "observables (foldl (\<lambda>w name. assign n (VBool (name = d)) w) w names) = observables w"
  by (induction names arbitrary: w) simp_all

lemma toggled_props:
  "props (foldl (\<lambda>w name. assign n (VBool (name = d)) w) w names) =
     (if names = [] then props w else (props w)(n \<mapsto> VBool (last names = d)))"
  by (induction names arbitrary: w) simp_all

lemma toggled_entries:
  "entries (foldl (\<lambda>w name. assign n (VBool (name = d)) w) w names) key = entries w key"
  by (simp add: entries_def toggled_frame)

section \<open>The mixin without initializeMixin\<close>

text \<open>
  C5, as the claim states it, fails for a base class whose template already holds the
  class token: \<open>initializeMixin\<close> is never called, the control call returns, and
  \<open>ck-transitions-disabled\<close> is in the class list of the template, and in what it
  renders to.
\<close>

theorem mixin_without_initializeMixin_counterexample:
  "fst (calls 0 [''disableCssTransitions'']
         (snd (new (CssTransitionMixin AssignField (\<lambda>u::unit. Inr token_view)) () 0 token_store)))
     = Returned VUndefined
   \<and> Token ''ck-transitions-disabled'' \<in> set (entries
        (snd (calls 0 [''disableCssTransitions'']
           (snd (new (CssTransitionMixin AssignField (\<lambda>u::unit. Inr token_view)) () 0
                  token_store))) 0)
        ''class'')
   \<and> ''ck-transitions-disabled'' \<in> set (render_attribute
        (snd (calls 0 [''disableCssTransitions'']
           (snd (new (CssTransitionMixin AssignField (\<lambda>u::unit. Inr token_view)) () 0
                  token_store))) 0)
        ''class'')"
proof -
  let ?h1 = "token_store(0 := Mixin AssignField token_view)"
  let ?w = "foldl (\<lambda>w name. assign ''_isCssTransitionsDisabled''
                      (VBool (name = ''disableCssTransitions'')) w)
              (Mixin AssignField token_view) [''disableCssTransitions'']"
  have n: "snd (new (CssTransitionMixin AssignField (\<lambda>u::unit. Inr token_view)) () 0 token_store)
             = ?h1"
    by (simp add: new_mixin)
  have i: "controls_installed 0 (?h1 0)"
    using Mixin_installs_controls_plain [of token_view 0 AssignField]
    by (simp add: token_view_def)
  have s: "set [''disableCssTransitions'']
             \<subseteq> {''disableCssTransitions'', ''enableCssTransitions''}"
    by simp
  have c: "calls 0 [''disableCssTransitions''] ?h1 = (Returned VUndefined, ?h1(0 := ?w))"
    using calls_controls [of 0 ?h1 "[''disableCssTransitions'']", OF i s] by simp
  have e: "entries token_view ''class'' = [Token ''ck-transitions-disabled'']"
    by (simp add: entries_def token_view_def)
  show ?thesis unfolding n c by (simp add: render_attribute_def e)
qed

text \<open>
  C5, amended. Constructing an instance of the mixin class does not extend the template.
  Where \<open>initializeMixin\<close> is never called and the control methods found on the instance
  are the mechanism's, every sequence of \<open>disableCssTransitions\<close> and
  \<open>enableCssTransitions\<close> calls returns without an exception, the flag reads what the
  last call wrote (\<open>false\<close> before any call), and the template stays the one the base
  constructor set: the class list renders without \<open>ck-transitions-disabled\<close> whatever
  the flag, provided the base template does not carry that token itself, as a literal
  or in a rule.
\<close>

theorem mixin_without_initializeMixin:
  assumes "base args = Inr wb"
    and "controls_installed r (Mixin emit wb)"
    and "set names \<subseteq> {''disableCssTransitions'', ''enableCssTransitions''}"
  shows "template (snd (new (CssTransitionMixin emit base) args r h) r) = template wb
       \<and> fst (calls r names (snd (new (CssTransitionMixin emit base) args r h)))
           = Returned VUndefined
       \<and> props (snd (calls r names (snd (new (CssTransitionMixin emit base) args r h))) r)
            ''_isCssTransitionsDisabled''
           = Some (VBool (names \<noteq> [] \<and> last names = ''disableCssTransitions''))
       \<and> template (snd (calls r names (snd (new (CssTransitionMixin emit base) args r h))) r)
           = template wb
       \<and> (Token ''ck-transitions-disabled'' \<notin> set (entries wb ''class'')
            \<and> (\<forall>n. BindIf n ''ck-transitions-disabled'' \<notin> set (entries wb ''class'')) \<longrightarrow>
          ''ck-transitions-disabled'' \<notin> set (render_attribute
             (snd (calls r names (snd (new (CssTransitionMixin emit base) args r h))) r) ''class''))"
proof -
  let ?h1 = "h(r := Mixin emit wb)"
  let ?w = "foldl (\<lambda>w name. assign ''_isCssTransitionsDisabled''
                      (VBool (name = ''disableCssTransitions'')) w) (Mixin emit wb) names"
  have n: "snd (new (CssTransitionMixin emit base) args r h) = ?h1"
    using assms(1) by (simp add: new_mixin)
  have i: "controls_installed r (?h1 r)" using assms(2) by simp
  have c: "calls r names ?h1 = (Returned VUndefined, ?h1(r := ?w))"
    using calls_controls [of r ?h1 names, OF i assms(3)] by simp
  have p: "props ?w ''_isCssTransitionsDisabled''
             = Some (VBool (names \<noteq> [] \<and> last names = ''disableCssTransitions''))"
    by (simp add: toggled_props)
  have t: "template ?w = template wb" by (simp add: toggled_frame)
  have e: "entries ?w ''class'' = entries wb ''class''" by (simp add: toggled_entries)
  have a: "''ck-transitions-disabled'' \<notin> set (render_attribute ?w ''class'')"
    if "Token ''ck-transitions-disabled'' \<notin> set (entries wb ''class'')"
       "\<forall>n. BindIf n ''ck-transitions-disabled'' \<notin> set (entries wb ''class'')"
    using render_without_token [OF that, of ?w] by (simp add: render_attribute_def e)
  show ?thesis using p t a by (simp add: n c)
qed

theorem mixin_without_initializeMixin_witness:
  "fst (calls 0 [''disableCssTransitions'']
         (snd (new (CssTransitionMixin AssignField (\<lambda>u::unit. Inr example_view)) () 0
                example_store)))
     = Returned VUndefined
   \<and> props (snd (calls 0 [''disableCssTransitions'']
         (snd (new (CssTransitionMixin AssignField (\<lambda>u::unit. Inr example_view)) () 0
                example_store))) 0)
        ''_isCssTransitionsDisabled'' = Some (VBool True)
   \<and> ''ck-transitions-disabled'' \<notin> set (render_attribute
        (snd (calls 0 [''disableCssTransitions'']
           (snd (new (CssTransitionMixin AssignField (\<lambda>u::unit. Inr example_view)) () 0
                  example_store))) 0)
        ''class'')"
proof -
  have e: "entries example_view ''class'' = [Token ''a'', Token ''b'']"
    by (simp add: example_view_def entries_def)
  have i: "controls_installed 0 (Mixin AssignField example_view)"
    by (rule Mixin_installs_controls_plain) (simp_all add: example_view_def)
  from mixin_without_initializeMixin
         [of "\<lambda>u::unit. Inr example_view" "()" example_view 0 AssignField
             "[''disableCssTransitions'']" example_store] e i
  show ?thesis by simp
qed

section \<open>What the mixin class adds\<close>




section \<open>The two paths compared\<close>

text \<open>
  With \<open>initializeMixin\<close> called, and the base instance owning no member under the names
  of the three methods, both paths leave the same properties and the same template after
  every sequence of control calls, so every attribute renders the same.
\<close>

lemma both_paths_same_props_and_template:
  assumes b: "base args = Inr wb" and t: "template wb \<noteq> None"
    and o: "methods wb ''disableCssTransitions'' = None"
           "methods wb ''enableCssTransitions'' = None"
           "methods wb ''initializeMixin'' = None"
    and n: "set names \<subseteq> {''disableCssTransitions'', ''enableCssTransitions''}"
  shows "props (snd (calls r names (snd (injectCssTransitionDisabler r (h(r := wb))))) r) =
         props (snd (calls r names (snd (call r ''initializeMixin''
                  (snd (new (CssTransitionMixin emit base) args r h))))) r)
       \<and> template (snd (calls r names (snd (injectCssTransitionDisabler r (h(r := wb))))) r) =
         template (snd (calls r names (snd (call r ''initializeMixin''
                  (snd (new (CssTransitionMixin emit base) args r h))))) r)
       \<and> render_attribute (snd (calls r names (snd (injectCssTransitionDisabler r (h(r := wb))))) r) key =
         render_attribute (snd (calls r names (snd (call r ''initializeMixin''
                  (snd (new (CssTransitionMixin emit base) args r h))))) r) key"
proof -
  from t obtain d where d: "template wb = Some d" by auto
  let ?f = "\<lambda>w name. assign ''_isCssTransitionsDisabled'' (VBool (name = ''disableCssTransitions'')) w"
  let ?hi = "snd (injectCssTransitionDisabler r (h(r := wb)))"
  let ?hm = "snd (call r ''initializeMixin'' (snd (new (CssTransitionMixin emit base) args r h)))"
  have wi: "?hi r = (set_view ''_isCssTransitionsDisabled'' (VBool False) wb)
       \<lparr>methods := (methods wb)
          (''disableCssTransitions'' \<mapsto> AssignCaptured r ''_isCssTransitionsDisabled'' True,
           ''enableCssTransitions'' \<mapsto> AssignCaptured r ''_isCssTransitionsDisabled'' False),
        template := Some (Template_extend d binding)\<rparr>"
    using inject_view [of "h(r := wb)" r d] d by simp
  have wm: "?hm r = (Mixin emit wb)\<lparr>template := Some (Template_extend d binding)\<rparr>"
    using b d o(3) by (simp add: new_mixin call_initializeMixin_Mixin exec_initializeMixin_Mixin)
  have ii: "controls_installed r (?hi r)" by (rule inject_installs_controls)
  have i0: "controls_installed r (Mixin emit wb)"
    by (rule Mixin_installs_controls_plain [OF o(1) o(2)])
  have im: "controls_installed r (?hm r)"
    unfolding wm using i0 by simp
  have ci: "snd (calls r names ?hi) r = foldl ?f (?hi r) names"
    by (simp add: calls_controls [of r ?hi names, OF ii n])
  have cm: "snd (calls r names ?hm) r = foldl ?f (?hm r) names"
    by (simp add: calls_controls [of r ?hm names, OF im n])
  have p0: "props (?hi r) = props (?hm r)"
    unfolding wi wm by (simp add: set_view_def)
  have t0: "template (?hi r) = template (?hm r)"
    unfolding wi wm by simp
  have p: "props (snd (calls r names ?hi) r) = props (snd (calls r names ?hm) r)"
    unfolding ci cm by (simp add: toggled_props p0)
  have tt: "template (snd (calls r names ?hi) r) = template (snd (calls r names ?hm) r)"
    unfolding ci cm by (simp add: toggled_frame t0)
  from p tt render_attribute_cong [OF p tt, of key] show ?thesis by blast
qed

text \<open>
  C1 asks for identical observable semantics of flag writes on both paths. The code departs
  from it: on the injected view the flag is a declared observable and
  \<open>disableCssTransitions()\<close> sends a change notification; on the instance of the
  mixin class, \<open>initializeMixin\<close> called, the flag is a plain field, is not among the
  declared observables, and the same call sends nothing, however the field initialiser
  is emitted.
\<close>

theorem mixin_flag_writes_not_observable:
  "changes (snd (call 0 ''disableCssTransitions''
             (snd (injectCssTransitionDisabler 0 example_store))) 0)
     = changes (snd (injectCssTransitionDisabler 0 example_store) 0)
       @ [(''_isCssTransitionsDisabled'', VBool True)]
   \<and> ''_isCssTransitionsDisabled''
        \<in> observables (snd (injectCssTransitionDisabler 0 example_store) 0)
   \<and> (\<forall>emit.
        changes (snd (call 0 ''disableCssTransitions''
             (snd (call 0 ''initializeMixin''
                (snd (new (CssTransitionMixin emit (\<lambda>u::unit. Inr example_view)) () 0
                       example_store))))) 0)
          = changes (snd (call 0 ''initializeMixin''
                (snd (new (CssTransitionMixin emit (\<lambda>u::unit. Inr example_view)) () 0
                       example_store))) 0)
        \<and> ''_isCssTransitionsDisabled''
             \<notin> observables (snd (call 0 ''initializeMixin''
                   (snd (new (CssTransitionMixin emit (\<lambda>u::unit. Inr example_view)) () 0
                          example_store))) 0))"
proof -
  let ?hi = "snd (injectCssTransitionDisabler 0 example_store)"
  have oi: "observables (?hi 0) = {''_isCssTransitionsDisabled''}"
    by (simp add: inject_unfold Let_def set_view_def example_store_def example_view_def)
  have pi: "props (?hi 0) ''_isCssTransitionsDisabled'' = Some (VBool False)"
    by (simp add: inject_props)
  have ii: "controls_installed 0 (?hi 0)" by (rule inject_installs_controls)
  have a: "changes (snd (call 0 ''disableCssTransitions'' ?hi) 0)
             = changes (?hi 0) @ [(''_isCssTransitionsDisabled'', VBool True)]"
    by (simp add: call_disable [of 0 ?hi, OF ii] assign_changes oi pi)
  have m: "changes (snd (call 0 ''disableCssTransitions''
             (snd (call 0 ''initializeMixin''
                (snd (new (CssTransitionMixin emit (\<lambda>u::unit. Inr example_view)) () 0
                       example_store))))) 0)
          = changes (snd (call 0 ''initializeMixin''
                (snd (new (CssTransitionMixin emit (\<lambda>u::unit. Inr example_view)) () 0
                       example_store))) 0)
        \<and> ''_isCssTransitionsDisabled''
             \<notin> observables (snd (call 0 ''initializeMixin''
                   (snd (new (CssTransitionMixin emit (\<lambda>u::unit. Inr example_view)) () 0
                          example_store))) 0)" for emit
  proof -
    let ?h1 = "snd (new (CssTransitionMixin emit (\<lambda>u::unit. Inr example_view)) () 0 example_store)"
    let ?hm = "snd (call 0 ''initializeMixin'' ?h1)"
    have h1: "?h1 = example_store(0 := Mixin emit example_view)"
      by (simp add: new_mixin)
    have ni: "methods example_view ''initializeMixin'' = None"
      by (simp add: example_view_def)
    have wm: "?hm 0 = (Mixin emit example_view)
        \<lparr>template := Some (Template_extend
            \<lparr>attributes = [''class'' \<mapsto> [Token ''a'', Token ''b'']]\<rparr> binding)\<rparr>"
      unfolding h1
      by (simp add: call_initializeMixin_Mixin [OF ni] exec_initializeMixin_Mixin)
         (simp add: example_view_def)
    have om: "observables (?hm 0) = {}"
      unfolding wm by (cases emit) (simp_all add: Mixin_observables example_view_def)
    have i0: "controls_installed 0 (Mixin emit example_view)"
      by (rule Mixin_installs_controls_plain) (simp_all add: example_view_def)
    have im: "controls_installed 0 (?hm 0)"
      unfolding wm using i0 by simp
    have b: "changes (snd (call 0 ''disableCssTransitions'' ?hm) 0) = changes (?hm 0)"
      by (simp add: call_disable [of 0 ?hm, OF im] assign_changes om)
    from b om show ?thesis by simp
  qed
  from a oi m show ?thesis by simp
qed

end
